theory Spec2Isabelle
  imports Complex_Main
begin

section \<open>Risk metrics of the risk-management agent\<close>

text \<open>
  A shallow embedding of \<^verbatim>\<open>RiskManagementAgent\<close>
  (\<^verbatim>\<open>src/agents/risk_management/agent.py\<close>). Each \<^verbatim>\<open>calculate_*\<close> method is one
  HOL function of the same name. The conventions of the embedding:

  \<^item> A finite float64 is a \<open>real\<close>: rounding and overflow are left out of the arithmetic the
    embedding carries out itself. The special values numpy and pandas produce instead of
    raising (a quotient by zero, the mean of an empty selection, the standard deviation
    of fewer than two points) are kept, as the type \<open>npfloat\<close>. Zero carries no sign.
  \<^item> Three float64 results are not computed by the embedding but taken as the library
    returns them, because the source tests them for zero or for their sign, or takes
    their integer part, and there the last bit decides: \<^verbatim>\<open>Series.std()\<close>, the
    \<^verbatim>\<open>Series.mean()\<close> of the stress test, and the recovery quotient. They are the fields
    of \<open>float64_lib\<close>, an argument of the functions that use them. Nothing is assumed
    of them. \<open>exact_lib\<close> is the instance without rounding.
  \<^item> \<^verbatim>\<open>None\<close> is \<open>None\<close>; a raised exception is \<open>Inl\<close> of a \<open>py_error\<close>.
  \<^item> A \<^verbatim>\<open>pd.Series\<close> is its list of (label, value) rows together with the kind of its
    index. A timestamp is the ordinal of its day. Labels are strictly increasing, as
    the data model requires; the embedding never re-orders rows.
  \<^item> The \<^verbatim>\<open>interpretation\<close>/\<^verbatim>\<open>explanation\<close> strings only format values already in
    the result and are left out, except where building one raises.
  \<^item> The HTTP calls of \<^verbatim>\<open>fetch_historical_returns\<close> are outside the embedding: the
    series they hand back is a parameter.
\<close>

subsection \<open>Exceptions and float64 values\<close>

datatype py_error = NameError | ValueError | TypeError | KeyError

datatype npfloat = Fin real | PosInf | NegInf | NaN

fun np_abs :: "npfloat \<Rightarrow> npfloat" where
  "np_abs (Fin x) = Fin \<bar>x\<bar>"
| "np_abs PosInf = PosInf"
| "np_abs NegInf = PosInf"
| "np_abs NaN = NaN"

text \<open>\<open>np_times x c\<close> is \<^verbatim>\<open>x * c\<close> and \<open>np_minus x c\<close> is \<^verbatim>\<open>x - c\<close> for a finite \<open>c\<close>.\<close>

fun np_times :: "npfloat \<Rightarrow> real \<Rightarrow> npfloat" where
  "np_times (Fin x) c = Fin (x * c)"
| "np_times PosInf c = (if 0 < c then PosInf else if c < 0 then NegInf else NaN)"
| "np_times NegInf c = (if 0 < c then NegInf else if c < 0 then PosInf else NaN)"
| "np_times NaN c = NaN"

fun np_minus :: "npfloat \<Rightarrow> real \<Rightarrow> npfloat" where
  "np_minus (Fin x) c = Fin (x - c)"
| "np_minus PosInf c = PosInf"
| "np_minus NegInf c = NegInf"
| "np_minus NaN c = NaN"

text \<open>
  float64 division never raises: a finite non-zero numerator over zero is an infinity,
  zero over zero is NaN.
\<close>

fun np_divide :: "npfloat \<Rightarrow> npfloat \<Rightarrow> npfloat" where
  "np_divide (Fin a) (Fin b) =
     (if b \<noteq> 0 then Fin (a / b)
      else if 0 < a then PosInf else if a < 0 then NegInf else NaN)"
| "np_divide (Fin a) PosInf = Fin 0"
| "np_divide (Fin a) NegInf = Fin 0"
| "np_divide PosInf (Fin b) = (if 0 \<le> b then PosInf else NegInf)"
| "np_divide NegInf (Fin b) = (if 0 \<le> b then NegInf else PosInf)"
| "np_divide PosInf PosInf = NaN"
| "np_divide PosInf NegInf = NaN"
| "np_divide NegInf PosInf = NaN"
| "np_divide NegInf NegInf = NaN"
| "np_divide NaN y = NaN"
| "np_divide x NaN = NaN"

fun np_square :: "npfloat \<Rightarrow> npfloat" where
  "np_square (Fin x) = Fin (x * x)"
| "np_square PosInf = PosInf"
| "np_square NegInf = PosInf"
| "np_square NaN = NaN"

text \<open>Comparisons with NaN are false.\<close>

fun np_greater :: "npfloat \<Rightarrow> real \<Rightarrow> bool" where
  "np_greater (Fin x) c = (c < x)"
| "np_greater PosInf c = True"
| "np_greater NegInf c = False"
| "np_greater NaN c = False"

fun np_less :: "npfloat \<Rightarrow> real \<Rightarrow> bool" where
  "np_less (Fin x) c = (x < c)"
| "np_less PosInf c = False"
| "np_less NegInf c = True"
| "np_less NaN c = False"

fun np_ge :: "npfloat \<Rightarrow> real \<Rightarrow> bool" where
  "np_ge (Fin x) c = (c \<le> x)"
| "np_ge PosInf c = True"
| "np_ge NegInf c = False"
| "np_ge NaN c = False"

fun np_lt :: "npfloat \<Rightarrow> npfloat \<Rightarrow> bool" where
  "np_lt (Fin a) (Fin b) = (a < b)"
| "np_lt (Fin a) PosInf = True"
| "np_lt (Fin a) NegInf = False"
| "np_lt NegInf (Fin b) = True"
| "np_lt NegInf PosInf = True"
| "np_lt NegInf NegInf = False"
| "np_lt PosInf y = False"
| "np_lt NaN y = False"
| "np_lt x NaN = False"

subsection \<open>Series\<close>

datatype index_kind = IntegerIndex | DatetimeIndex

record series =
  index_type :: index_kind
  rows :: "(int \<times> real) list"

definition vals :: "series \<Rightarrow> real list" where
  "vals s = map snd (rows s)"

text \<open>\<^verbatim>\<open>Series.mean()\<close>: NaN on an empty selection.\<close>

definition mean :: "real list \<Rightarrow> npfloat" where
  "mean xs = (if xs = [] then NaN else Fin (sum_list xs / real (length xs)))"

text \<open>
  \<^verbatim>\<open>Series.var()\<close> and \<^verbatim>\<open>Series.cov()\<close> with one delta degree of freedom, in exact
  arithmetic, and \<^verbatim>\<open>Series.std()\<close>: NaN on fewer than two points.
\<close>

definition avg :: "real list \<Rightarrow> real" where
  "avg xs = sum_list xs / real (length xs)"

definition covariance :: "real list \<Rightarrow> real list \<Rightarrow> real" where
  "covariance xs ys =
     sum_list (map (\<lambda>(x, y). (x - avg xs) * (y - avg ys)) (zip xs ys)) / real (length xs - 1)"

text \<open>
  The float64 routines taken as given: \<open>lib_std xs\<close> is what \<^verbatim>\<open>Series.std()\<close> returns on
  two or more points, \<open>lib_mean xs\<close> what \<^verbatim>\<open>Series.mean()\<close> returns on one or more
  points, and \<open>lib_div a b\<close> the float64 quotient \<^verbatim>\<open>a / b\<close> of a non-negative \<open>a\<close> by a
  positive \<open>b\<close>, \<open>None\<close> where it overflows to \<^verbatim>\<open>inf\<close>.
\<close>

record float64_lib =
  lib_std :: "real list \<Rightarrow> real"
  lib_mean :: "real list \<Rightarrow> real"
  lib_div :: "real \<Rightarrow> real \<Rightarrow> real option"

definition exact_lib :: float64_lib where
  "exact_lib =
     \<lparr>lib_std = (\<lambda>xs. sqrt (covariance xs xs)),
      lib_mean = avg,
      lib_div = (\<lambda>a b. Some (a / b))\<rparr>"

definition std :: "float64_lib \<Rightarrow> real list \<Rightarrow> npfloat" where
  "std lib xs = (if length xs < 2 then NaN else Fin (lib_std lib xs))"

subsection \<open>Value at Risk\<close>

text \<open>
  Every estimator opens with \<^verbatim>\<open>if returns is None or len(returns) == 0: return None\<close>:
  the two outer branches of each definition below.
\<close>

text \<open>
  \<^verbatim>\<open>np.percentile(a, q)\<close> with the default linear interpolation, for a non-empty \<open>a\<close>
  (its callers return before it on an empty series): the virtual index \<open>q/100 * (n-1)\<close>
  into the sorted data, interpolated between its two neighbours. numpy rejects a
  \<open>q\<close> outside \<open>[0, 100]\<close> with ValueError.
\<close>

definition percentile :: "real list \<Rightarrow> real \<Rightarrow> py_error + real" where
  "percentile a q =
     (if q < 0 \<or> 100 < q then Inl ValueError
      else
        let srt = sort a;
            n = length a;
            virtual_index = q / 100 * real (n - 1);
            lo = nat \<lfloor>virtual_index\<rfloor>;
            hi = min (lo + 1) (n - 1);
            gamma = virtual_index - real lo
        in Inr (srt ! lo + (srt ! hi - srt ! lo) * gamma))"

record var_result =
  var_confidence :: real
  var_pct :: real
  var_dollar :: real

definition calculate_var :: "series option \<Rightarrow> real \<Rightarrow> real \<Rightarrow> py_error + var_result option" where
  "calculate_var returns confidence portfolio_value =
     (case returns of
        None \<Rightarrow> Inr None
      | Some s \<Rightarrow>
          if rows s = [] then Inr None
          else
            (let var_percentile = (1 - confidence) * 100
             in (case percentile (vals s) var_percentile of
                   Inl e \<Rightarrow> Inl e
                 | Inr var_return \<Rightarrow>
                     (let var_pct = \<bar>var_return\<bar>;
                          var_dollar = var_pct * portfolio_value
                      in Inr (Some \<lparr>var_confidence = confidence, var_pct = var_pct,
                                   var_dollar = var_dollar\<rparr>)))))"

subsection \<open>Conditional VaR\<close>

record cvar_result =
  cvar_confidence :: real
  cvar_pct :: npfloat
  cvar_dollar :: npfloat
  num_tail_events :: nat

definition calculate_cvar :: "series option \<Rightarrow> real \<Rightarrow> real \<Rightarrow> py_error + cvar_result option" where
  "calculate_cvar returns confidence portfolio_value =
     (case returns of
        None \<Rightarrow> Inr None
      | Some s \<Rightarrow>
          if rows s = [] then Inr None
          else
            (case calculate_var returns confidence portfolio_value of
               Inl e \<Rightarrow> Inl e
             | Inr None \<Rightarrow> Inl TypeError
             | Inr (Some var_result) \<Rightarrow>
                 (let var_return = - var_pct var_result;
                      tail_losses = filter (\<lambda>r. r \<le> var_return) (vals s);
                      cvar_return = mean tail_losses;
                      cvar_pct = np_abs cvar_return;
                      cvar_dollar = np_times cvar_pct portfolio_value
                  in Inr (Some \<lparr>cvar_confidence = confidence, cvar_pct = cvar_pct,
                               cvar_dollar = cvar_dollar,
                               num_tail_events = length tail_losses\<rparr>))))"

subsection \<open>Volatility\<close>

text \<open>
  The two branches of \<^verbatim>\<open>calculate_volatility\<close> return dictionaries with different
  keys: one record each, and the sum of the two as the result.
\<close>

record volatility_result =
  daily_volatility :: npfloat
  annual_volatility :: npfloat

record rolling_result =
  rolling_volatility :: "npfloat list"
  current_volatility :: npfloat
  avg_volatility :: npfloat
  max_volatility :: npfloat
  min_volatility :: npfloat
  window_days :: int

text \<open>The full-period branch (\<^verbatim>\<open>window is None\<close>), on a non-empty series.\<close>

definition full_period_volatility :: "float64_lib \<Rightarrow> real list \<Rightarrow> volatility_result" where
  "full_period_volatility lib xs =
     (let daily_vol = std lib xs;
          annual_vol = np_times daily_vol (sqrt 252)
      in \<lparr>daily_volatility = daily_vol, annual_volatility = annual_vol\<rparr>)"

text \<open>
  \<^verbatim>\<open>returns.rolling(window=w).std()\<close>: at position \<open>i\<close> the standard deviation of the
  trailing \<open>w\<close> values, NaN while fewer than \<open>w\<close> values are available.
\<close>

definition rolling_std :: "float64_lib \<Rightarrow> nat \<Rightarrow> real list \<Rightarrow> npfloat list" where
  "rolling_std lib w xs =
     map (\<lambda>i. if i + 1 < w then NaN else std lib (take w (drop (i + 1 - w) xs)))
       [0..<length xs]"

text \<open>\<^verbatim>\<open>mean()\<close>, \<^verbatim>\<open>max()\<close> and \<^verbatim>\<open>min()\<close> of a series skip its NaN entries.\<close>

fun finite_part :: "npfloat list \<Rightarrow> real list" where
  "finite_part [] = []"
| "finite_part (Fin x # xs) = x # finite_part xs"
| "finite_part (y # xs) = finite_part xs"

definition nan_max :: "npfloat list \<Rightarrow> npfloat" where
  "nan_max xs = (case finite_part xs of [] \<Rightarrow> NaN | y # ys \<Rightarrow> Fin (fold max ys y))"

definition nan_min :: "npfloat list \<Rightarrow> npfloat" where
  "nan_min xs = (case finite_part xs of [] \<Rightarrow> NaN | y # ys \<Rightarrow> Fin (fold min ys y))"

definition rolling_volatility_of ::
  "float64_lib \<Rightarrow> int \<Rightarrow> real list \<Rightarrow> py_error + rolling_result" where
  "rolling_volatility_of lib window xs =
     (if window < 0 then Inl ValueError
      else
        let rolling_vol = map (\<lambda>v. np_times v (sqrt 252)) (rolling_std lib (nat window) xs)
        in Inr \<lparr>rolling_volatility = rolling_vol,
                current_volatility = last rolling_vol,
                avg_volatility = mean (finite_part rolling_vol),
                max_volatility = nan_max rolling_vol,
                min_volatility = nan_min rolling_vol,
                window_days = window\<rparr>)"

definition calculate_volatility ::
  "float64_lib \<Rightarrow> series option \<Rightarrow> int option \<Rightarrow>
   py_error + (volatility_result + rolling_result) option" where
  "calculate_volatility lib returns window =
     (case returns of
        None \<Rightarrow> Inr None
      | Some s \<Rightarrow>
          if rows s = [] then Inr None
          else
            (case window of
               None \<Rightarrow> Inr (Some (Inl (full_period_volatility lib (vals s))))
             | Some w \<Rightarrow>
                 (case rolling_volatility_of lib w (vals s) of
                    Inl e \<Rightarrow> Inl e
                  | Inr r \<Rightarrow> Inr (Some (Inr r)))))"

subsection \<open>Maximum drawdown\<close>

fun cumprod_from :: "real \<Rightarrow> real list \<Rightarrow> real list" where
  "cumprod_from acc [] = []"
| "cumprod_from acc (x # xs) = (acc * x) # cumprod_from (acc * x) xs"

definition cumprod :: "real list \<Rightarrow> real list" where
  "cumprod xs = cumprod_from 1 xs"

fun cummax_from :: "real \<Rightarrow> real list \<Rightarrow> real list" where
  "cummax_from m [] = []"
| "cummax_from m (x # xs) = max m x # cummax_from (max m x) xs"

fun cummax :: "real list \<Rightarrow> real list" where
  "cummax [] = []"
| "cummax (x # xs) = x # cummax_from x xs"

text \<open>
  \<^verbatim>\<open>idxmin()\<close> and \<^verbatim>\<open>idxmax()\<close>: the label of the first row that attains the extreme
  value, NaN rows skipped. On an empty series both raise ValueError. On a series that
  holds only NaN, \<^verbatim>\<open>idxmin\<close> has no label to give: pandas 3 raises ValueError there,
  earlier versions hand back NaN, which the slice of the next source line rejects with
  TypeError. Either way an exception leaves the function there; the embedding calls it
  ValueError.
\<close>

fun first_min :: "int \<times> npfloat \<Rightarrow> (int \<times> npfloat) list \<Rightarrow> int \<times> npfloat" where
  "first_min best [] = best"
| "first_min best (x # xs) = first_min (if np_lt (snd x) (snd best) then x else best) xs"

definition idxmin :: "(int \<times> npfloat) list \<Rightarrow> py_error + int" where
  "idxmin xs =
     (case filter (\<lambda>row. snd row \<noteq> NaN) xs of
        [] \<Rightarrow> Inl ValueError
      | x # rest \<Rightarrow> Inr (fst (first_min x rest)))"

definition series_min :: "(int \<times> npfloat) list \<Rightarrow> npfloat" where
  "series_min xs =
     (case filter (\<lambda>row. snd row \<noteq> NaN) xs of
        [] \<Rightarrow> NaN
      | x # rest \<Rightarrow> snd (first_min x rest))"

fun first_max :: "int \<times> real \<Rightarrow> (int \<times> real) list \<Rightarrow> int \<times> real" where
  "first_max best [] = best"
| "first_max best (x # xs) = first_max (if snd best < snd x then x else best) xs"

definition idxmax :: "(int \<times> real) list \<Rightarrow> py_error + int" where
  "idxmax xs = (case xs of [] \<Rightarrow> Inl ValueError | x # rest \<Rightarrow> Inr (fst (first_max x rest)))"

text \<open>
  \<^verbatim>\<open>s[:label]\<close> and \<^verbatim>\<open>s[label:]\<close>. On a DatetimeIndex a timestamp bound selects by
  label and includes the bound. On an integer index an integer bound is a position, as
  in a Python list: the end is excluded and a negative bound counts from the end.
\<close>

definition slice_to :: "index_kind \<Rightarrow> int \<Rightarrow> (int \<times> 'a) list \<Rightarrow> (int \<times> 'a) list" where
  "slice_to k label xs =
     (case k of
        DatetimeIndex \<Rightarrow> filter (\<lambda>row. fst row \<le> label) xs
      | IntegerIndex \<Rightarrow>
          if 0 \<le> label then take (nat label) xs
          else take (nat (int (length xs) + label)) xs)"

definition slice_from :: "index_kind \<Rightarrow> int \<Rightarrow> (int \<times> 'a) list \<Rightarrow> (int \<times> 'a) list" where
  "slice_from k label xs =
     (case k of
        DatetimeIndex \<Rightarrow> filter (\<lambda>row. label \<le> fst row) xs
      | IntegerIndex \<Rightarrow>
          if 0 \<le> label then drop (nat label) xs
          else drop (nat (int (length xs) + label)) xs)"

text \<open>
  \<^verbatim>\<open>if recovery_date:\<close> -- \<^verbatim>\<open>None\<close> is false, the integer label 0 is false, a
  timestamp is true.
\<close>

definition truthy_label :: "index_kind \<Rightarrow> int option \<Rightarrow> bool" where
  "truthy_label k l =
     (case l of None \<Rightarrow> False | Some v \<Rightarrow> (case k of IntegerIndex \<Rightarrow> v \<noteq> 0 | DatetimeIndex \<Rightarrow> True))"

text \<open>
  The day counts of lines 229-237: \<^verbatim>\<open>abs(a - b)\<close> between integer labels,
  \<^verbatim>\<open>(a - b).days\<close> between timestamps.
\<close>

definition label_distance :: "index_kind \<Rightarrow> int \<Rightarrow> int \<Rightarrow> int" where
  "label_distance k a b = (case k of IntegerIndex \<Rightarrow> \<bar>a - b\<bar> | DatetimeIndex \<Rightarrow> a - b)"

text \<open>
  The dictionary of lines 241-250 without its last entry. Dates are kept as labels
  rather than as their printed form; \<open>None\<close> stands for \<^verbatim>\<open>'Not yet recovered'\<close> in
  \<open>dd_recovery_date\<close> and for \<^verbatim>\<open>'Ongoing'\<close> in \<open>dd_recovery_days\<close>.
\<close>

record drawdown_result =
  max_drawdown :: npfloat
  max_drawdown_pct :: npfloat
  dd_peak_date :: int
  dd_trough_date :: int
  dd_recovery_date :: "int option"
  dd_drawdown_days :: int
  dd_recovery_days :: "int option"

text \<open>
  Lines 204-248 on a non-empty series: everything \<^verbatim>\<open>calculate_max_drawdown\<close> computes
  before it reaches the \<^verbatim>\<open>interpretation\<close> entry.
\<close>

definition drawdown_entries :: "series \<Rightarrow> py_error + drawdown_result" where
  "drawdown_entries s =
     (let k = index_type s;
          labels = map fst (rows s);
          cum_returns = cumprod (map (\<lambda>r. 1 + r) (vals s));
          running_max = cummax cum_returns;
          drawdown = zip labels
                       (map (\<lambda>(c, m). np_divide (Fin (c - m)) (Fin m)) (zip cum_returns running_max));
          max_dd = series_min drawdown
      in case idxmin drawdown of
           Inl e \<Rightarrow> Inl e
         | Inr max_dd_date \<Rightarrow>
             (case idxmax (slice_to k max_dd_date (zip labels running_max)) of
                Inl e \<Rightarrow> Inl e
              | Inr peak_date \<Rightarrow>
                  let recovery_date =
                        (if max_dd_date < last labels
                         then (case filter (\<lambda>row. np_ge (snd row) 0) (slice_from k max_dd_date drawdown) of
                                 [] \<Rightarrow> None
                               | row # _ \<Rightarrow> Some (fst row))
                         else None);
                      drawdown_days = label_distance k max_dd_date peak_date;
                      recovery_days =
                        (case recovery_date of
                           None \<Rightarrow> None
                         | Some r \<Rightarrow>
                             if truthy_label k recovery_date
                             then Some (label_distance k r max_dd_date) else None)
                  in Inr \<lparr>max_drawdown = np_abs max_dd,
                          max_drawdown_pct = np_abs max_dd,
                          dd_peak_date = peak_date,
                          dd_trough_date = max_dd_date,
                          dd_recovery_date =
                            (if truthy_label k recovery_date then recovery_date else None),
                          dd_drawdown_days = drawdown_days,
                          dd_recovery_days =
                            (if recovery_days = Some 0 then None else recovery_days)\<rparr>))"

text \<open>
  The last entry of the dictionary is the f-string
  \<^verbatim>\<open>f"Worst decline: {abs(max_dd):.2%} from {peak_date} to {trough_date}"\<close>. No
  variable \<^verbatim>\<open>trough_date\<close> is bound in the function or in the module (the trough is
  held in \<^verbatim>\<open>max_dd_date\<close>), so evaluating it raises NameError once the entries before
  it have been built.
\<close>

definition calculate_max_drawdown :: "series option \<Rightarrow> py_error + drawdown_result option" where
  "calculate_max_drawdown returns =
     (case returns of
        None \<Rightarrow> Inr None
      | Some s \<Rightarrow>
          if rows s = [] then Inr None
          else
            (case drawdown_entries s of
               Inl e \<Rightarrow> Inl e
             | Inr entries \<Rightarrow> Inl NameError))"

subsection \<open>Sharpe ratio\<close>

text \<open>
  \<^verbatim>\<open>base ** e\<close> on float64 for a positive exponent \<open>e\<close> (here \<open>1 / years\<close>): a
  negative base has a power only at an integral exponent, otherwise the result is NaN.
\<close>

definition float_pow :: "real \<Rightarrow> real \<Rightarrow> npfloat" where
  "float_pow b e =
     (if 0 < b then Fin (b powr e)
      else if b = 0 then Fin 0
      else if real_of_int \<lfloor>e\<rfloor> = e then Fin (b ^ nat \<lfloor>e\<rfloor>)
      else NaN)"

record sharpe_result =
  sharpe_ratio :: npfloat
  annualized_return :: npfloat
  annualized_volatility :: npfloat
  risk_free_rate :: real
  rating :: string

definition sharpe_rating :: "npfloat \<Rightarrow> string" where
  "sharpe_rating sharpe =
     (if np_greater sharpe 3.0 then ''Exceptional''
      else if np_greater sharpe 2.0 then ''Very Good''
      else if np_greater sharpe 1.0 then ''Good''
      else if np_greater sharpe 0.5 then ''Acceptable''
      else if np_greater sharpe 0 then ''Poor''
      else ''Losing Money'')"

definition calculate_sharpe_ratio ::
  "float64_lib \<Rightarrow> series option \<Rightarrow> real \<Rightarrow> sharpe_result option" where
  "calculate_sharpe_ratio lib returns rf =
     (case returns of
        None \<Rightarrow> None
      | Some s \<Rightarrow>
          if rows s = [] then None
          else
            (let total_return = prod_list (map (\<lambda>r. 1 + r) (vals s)) - 1;
                 n_days = length (rows s);
                 years = real n_days / 252;
                 annualized_return = np_minus (float_pow (1 + total_return) (1 / years)) 1;
                 annualized_vol = np_times (std lib (vals s)) (sqrt 252);
                 sharpe = np_divide (np_minus annualized_return rf) annualized_vol
             in Some \<lparr>sharpe_ratio = sharpe,
                       annualized_return = annualized_return,
                       annualized_volatility = annualized_vol,
                       risk_free_rate = rf,
                       rating = sharpe_rating sharpe\<rparr>))"

subsection \<open>Beta\<close>

text \<open>
  \<^verbatim>\<open>pd.DataFrame({'asset': ..., 'market': ...}).dropna()\<close>: the rows whose label occurs
  in both series. Labels of an integer index and of a DatetimeIndex never coincide.
\<close>

definition combined :: "series \<Rightarrow> series \<Rightarrow> (real \<times> real) list" where
  "combined asset market =
     (if index_type asset \<noteq> index_type market then []
      else List.map_filter
             (\<lambda>(d, x). map_option (\<lambda>y. (x, y)) (map_of (rows market) d)) (rows asset))"

text \<open>
  A result of \<^verbatim>\<open>calculate_beta\<close> is either the dictionary
  \<^verbatim>\<open>{'beta': None, 'error': msg}\<close> or the dictionary of the computed figures.
\<close>

record beta_figures =
  beta_value :: npfloat
  r_squared :: npfloat
  correlation :: npfloat
  market_benchmark :: string
  beta_class :: string

datatype beta_result = BetaError string | Beta beta_figures

definition beta_interpretation :: "npfloat \<Rightarrow> string" where
  "beta_interpretation b =
     (if np_greater b 1.5 then ''Highly Aggressive (Very volatile)''
      else if np_greater b 1.2 then ''Aggressive (More volatile than market)''
      else if np_greater b 0.8 then ''Moderate (Similar to market)''
      else if np_greater b 0.5 then ''Defensive (Less volatile than market)''
      else if np_greater b 0 then ''Very Defensive (Low volatility)''
      else ''Inverse (Moves opposite to market)'')"

text \<open>
  \<open>market_returns\<close> is what \<^verbatim>\<open>fetch_historical_returns(market_symbol, period="1y")\<close>
  hands back.
\<close>

definition calculate_beta :: "series option \<Rightarrow> string \<Rightarrow> series option \<Rightarrow> beta_result option" where
  "calculate_beta asset_returns market_symbol market_returns =
     (case asset_returns of
        None \<Rightarrow> None
      | Some a \<Rightarrow>
          if rows a = [] then None
          else
            (case market_returns of
               None \<Rightarrow> Some (BetaError ''Could not fetch market data'')
             | Some m \<Rightarrow>
                 if length (combined a m) < 20
                 then Some (BetaError ''Insufficient overlapping data'')
                 else
                   (let asset = map fst (combined a m);
                        market = map snd (combined a m);
                        cov = covariance asset market;
                        market_variance = covariance market market;
                        b = np_divide (Fin cov) (Fin market_variance);
                        corr = np_divide (np_divide (Fin cov) (Fin (sqrt (covariance asset asset))))
                                 (Fin (sqrt market_variance))
                    in Some (Beta \<lparr>beta_value = b,
                                   r_squared = np_square corr,
                                   correlation = corr,
                                   market_benchmark = market_symbol,
                                   beta_class = beta_interpretation b\<rparr>))))"

subsection \<open>Stress test\<close>

record stress_result =
  shock_pct :: real
  initial_value :: real
  shocked_value :: real
  loss_amount :: real
  loss_pct :: real
  days_to_recover :: "int option"
  years_to_recover :: "real option"

text \<open>\<^verbatim>\<open>int(x)\<close> truncates towards zero; \<^verbatim>\<open>round(x, 1)\<close> rounds halves to even.\<close>

definition py_int :: "real \<Rightarrow> int" where
  "py_int x = (if 0 \<le> x then \<lfloor>x\<rfloor> else \<lceil>x\<rceil>)"

definition round_half_even :: "real \<Rightarrow> int" where
  "round_half_even x =
     (let f = \<lfloor>x\<rfloor>; d = x - real_of_int f
      in if d < 1 / 2 then f else if 1 / 2 < d then f + 1 else if even f then f else f + 1)"

definition round1 :: "real \<Rightarrow> real" where
  "round1 x = real_of_int (round_half_even (x * 10)) / 10"

definition default_scenarios :: "string \<rightharpoonup> real" where
  "default_scenarios = map_of
     [(''Moderate Decline -5%'', -0.05),
      (''Correction -10%'', -0.10),
      (''Bear Market -20%'', -0.20),
      (''Severe Crash -30%'', -0.30),
      (''2008 Crisis -50%'', -0.50),
      (''Black Monday -20%'', -0.20),
      (''COVID Crash -35%'', -0.35),
      (''Flash Crash -10%'', -0.10)]"

text \<open>
  The body of the loop over \<^verbatim>\<open>scenarios.items()\<close>. The local \<open>days_to_recover\<close> is the
  float64 quotient of line 428, with \<open>None\<close> for \<^verbatim>\<open>float('inf')\<close>: the value of the
  \<^verbatim>\<open>else\<close> branch, and of a quotient that overflows. Lines 440 and 441 report
  \<^verbatim>\<open>None\<close> for \<^verbatim>\<open>inf\<close>, and otherwise \<^verbatim>\<open>int(days_to_recover)\<close> and
  \<^verbatim>\<open>round(years_to_recover, 1)\<close>.
\<close>

definition scenario_result :: "float64_lib \<Rightarrow> real \<Rightarrow> real \<Rightarrow> real \<Rightarrow> stress_result" where
  "scenario_result lib portfolio_value avg_daily_return shock =
     (let shocked = portfolio_value * (1 + shock);
          loss = portfolio_value - shocked;
          days_to_recover =
            (if 0 < avg_daily_return then lib_div lib \<bar>shock\<bar> avg_daily_return else None);
          years_to_recover = map_option (\<lambda>d. d / 252) days_to_recover
      in \<lparr>shock_pct = shock,
          initial_value = portfolio_value,
          shocked_value = shocked,
          loss_amount = loss,
          loss_pct = shock,
          days_to_recover = map_option py_int days_to_recover,
          years_to_recover = map_option round1 years_to_recover\<rparr>)"

definition stress_test ::
  "float64_lib \<Rightarrow> series option \<Rightarrow> real \<Rightarrow> (string \<rightharpoonup> real) option \<Rightarrow>
   (string \<rightharpoonup> stress_result) option" where
  "stress_test lib returns portfolio_value scenarios =
     (case returns of
        None \<Rightarrow> None
      | Some s \<Rightarrow>
          if rows s = [] then None
          else
            (let scenarios = (case scenarios of None \<Rightarrow> default_scenarios | Some sc \<Rightarrow> sc);
                 avg_daily_return = lib_mean lib (vals s)
             in Some (\<lambda>scenario_name.
                        map_option (scenario_result lib portfolio_value avg_daily_return)
                          (scenarios scenario_name))))"

subsection \<open>Comprehensive risk assessment\<close>

record risk_limits =
  limit_var_95 :: real
  limit_var_99 :: real
  limit_volatility :: real
  limit_max_drawdown :: real
  limit_min_sharpe :: real

definition default_risk_limits :: risk_limits where
  "default_risk_limits =
     \<lparr>limit_var_95 = 0.05, limit_var_99 = 0.10, limit_volatility = 0.30,
      limit_max_drawdown = 0.20, limit_min_sharpe = 1.0\<rparr>"

text \<open>
  An alert is a formatted string in the source; the embedding keeps what the string is
  built from: the metric, the observed value and the limit.
\<close>

datatype metric = VaR95 | VaR99 | Volatility | MaxDrawdown | SharpeRatio

datatype alert = Alert metric npfloat real

datatype risk_status = ALERT | OK

record risk_assessment =
  ra_symbol :: string
  ra_portfolio_value :: real
  ra_assessment_date :: string
  ra_data_points :: nat
  ra_var_95 :: "var_result option"
  ra_var_99 :: "var_result option"
  ra_cvar_95 :: "cvar_result option"
  ra_cvar_99 :: "cvar_result option"
  ra_volatility :: "volatility_result option"
  ra_max_drawdown :: "drawdown_result option"
  ra_sharpe_ratio :: "sharpe_result option"
  ra_beta :: "beta_result option"
  ra_stress_test :: "(string \<rightharpoonup> stress_result) option"
  ra_alerts :: "alert list"
  ra_risk_status :: risk_status

datatype assess_result = AssessError string | Assessment risk_assessment

text \<open>
  Lines 511-527: the five checks, each appending at most one alert. A metric that is
  \<^verbatim>\<open>None\<close> is skipped.
\<close>

definition limit_alerts ::
  "risk_limits \<Rightarrow> var_result option \<Rightarrow> var_result option \<Rightarrow> volatility_result option \<Rightarrow>
   drawdown_result option \<Rightarrow> sharpe_result option \<Rightarrow> alert list" where
  "limit_alerts limits var_95 var_99 volatility max_dd sharpe =
     (case var_95 of
        Some v \<Rightarrow> if limit_var_95 limits < var_pct v
                  then [Alert VaR95 (Fin (var_pct v)) (limit_var_95 limits)] else []
      | None \<Rightarrow> [])
     @ (case var_99 of
          Some v \<Rightarrow> if limit_var_99 limits < var_pct v
                    then [Alert VaR99 (Fin (var_pct v)) (limit_var_99 limits)] else []
        | None \<Rightarrow> [])
     @ (case volatility of
          Some v \<Rightarrow> if np_greater (annual_volatility v) (limit_volatility limits)
                    then [Alert Volatility (annual_volatility v) (limit_volatility limits)] else []
        | None \<Rightarrow> [])
     @ (case max_dd of
          Some d \<Rightarrow> if np_greater (max_drawdown d) (limit_max_drawdown limits)
                    then [Alert MaxDrawdown (max_drawdown d) (limit_max_drawdown limits)] else []
        | None \<Rightarrow> [])
     @ (case sharpe of
          Some r \<Rightarrow> if np_less (sharpe_ratio r) (limit_min_sharpe limits)
                    then [Alert SharpeRatio (sharpe_ratio r) (limit_min_sharpe limits)] else []
        | None \<Rightarrow> [])"

definition status_of :: "alert list \<Rightarrow> risk_status" where
  "status_of alerts = (if 0 < length alerts then ALERT else OK)"

text \<open>
  \<^verbatim>\<open>volatility['annual_volatility']\<close> reads a key that only the full-period dictionary
  has.
\<close>

definition full_period :: "(volatility_result + rolling_result) option \<Rightarrow> py_error + volatility_result option" where
  "full_period v =
     (case v of None \<Rightarrow> Inr None | Some (Inl f) \<Rightarrow> Inr (Some f) | Some (Inr r) \<Rightarrow> Inl KeyError)"

text \<open>
  \<open>returns\<close> is what \<^verbatim>\<open>fetch_historical_returns(symbol, period="1y")\<close> hands back,
  \<open>market_returns\<close> what the same call hands back for \<^verbatim>\<open>"SPY"\<close> inside
  \<^verbatim>\<open>calculate_beta\<close>, and \<open>now\<close> the formatted \<^verbatim>\<open>datetime.now()\<close>. The metrics
  are computed in the order of lines 501-509; the first exception ends the call.
\<close>

definition assess_risk ::
  "float64_lib \<Rightarrow> risk_limits \<Rightarrow> string \<Rightarrow> real \<Rightarrow> string \<Rightarrow> series option \<Rightarrow>
   series option \<Rightarrow> py_error + assess_result" where
  "assess_risk lib limits symbol portfolio_value now returns market_returns =
     (case returns of
        None \<Rightarrow> Inr (AssessError ''Could not fetch data'')
      | Some s \<Rightarrow>
     (case calculate_var returns 0.95 portfolio_value of Inl e \<Rightarrow> Inl e | Inr var_95 \<Rightarrow>
     (case calculate_var returns 0.99 portfolio_value of Inl e \<Rightarrow> Inl e | Inr var_99 \<Rightarrow>
     (case calculate_cvar returns 0.95 portfolio_value of Inl e \<Rightarrow> Inl e | Inr cvar_95 \<Rightarrow>
     (case calculate_cvar returns 0.99 portfolio_value of Inl e \<Rightarrow> Inl e | Inr cvar_99 \<Rightarrow>
     (case calculate_volatility lib returns None of Inl e \<Rightarrow> Inl e | Inr volatility \<Rightarrow>
     (case calculate_max_drawdown returns of Inl e \<Rightarrow> Inl e | Inr max_dd \<Rightarrow>
     (let sharpe = calculate_sharpe_ratio lib returns 0.04;
          b = calculate_beta returns ''SPY'' market_returns;
          stress_results = stress_test lib returns portfolio_value None
      in case full_period volatility of Inl e \<Rightarrow> Inl e | Inr vol \<Rightarrow>
         (let alerts = limit_alerts limits var_95 var_99 vol max_dd sharpe
          in Inr (Assessment
               \<lparr>ra_symbol = symbol,
                ra_portfolio_value = portfolio_value,
                ra_assessment_date = now,
                ra_data_points = length (rows s),
                ra_var_95 = var_95,
                ra_var_99 = var_99,
                ra_cvar_95 = cvar_95,
                ra_cvar_99 = cvar_99,
                ra_volatility = vol,
                ra_max_drawdown = max_dd,
                ra_sharpe_ratio = sharpe,
                ra_beta = b,
                ra_stress_test = stress_results,
                ra_alerts = alerts,
                ra_risk_status = status_of alerts\<rparr>))))))))))"

section \<open>Properties\<close>

subsection \<open>VaR of a constant series\<close>

lemma vals_const:
  "\<forall>row\<in>set (rows s). snd row = r \<Longrightarrow> vals s = replicate (length (rows s)) r"
  unfolding vals_def
  by (induction "rows s" arbitrary: s) (auto simp: map_replicate_const intro: replicate_eqI)

lemma percentile_const:
  assumes "0 < n" "0 \<le> q" "q \<le> 100"
  shows "percentile (replicate n r) q = Inr r"
proof -
  let ?vi = "q / 100 * real (n - 1)"
  have "q / 100 * real (n - 1) \<le> 1 * real (n - 1)"
    using assms by (intro mult_right_mono) auto
  hence "?vi \<le> real (n - 1)" by simp
  moreover have "0 \<le> ?vi" using assms by simp
  ultimately have lo: "nat \<lfloor>?vi\<rfloor> \<le> n - 1" by linarith
  hence lo': "nat \<lfloor>?vi\<rfloor> < n" using assms by linarith
  have hi: "min (nat \<lfloor>?vi\<rfloor> + 1) (n - 1) < n" using assms by linarith
  have srt: "sort (replicate n r) = replicate n r"
    by (simp add: sorted_sort_id sorted_replicate)
  show ?thesis
    using assms lo' hi unfolding percentile_def Let_def srt by simp
qed

text \<open>
  Claim C10. On a non-empty series whose returns all equal \<open>r\<close>, and at every
  confidence level strictly between 0 and 1, \<open>calculate_var\<close> returns a result whose
  \<open>var_pct\<close> is \<open>\<bar>r\<bar>\<close>: both order statistics the percentile interpolates between are
  \<open>r\<close>.
\<close>

theorem var_identical_returns:
  assumes "rows s \<noteq> []" "\<forall>row\<in>set (rows s). snd row = r" "0 < c" "c < 1"
  shows "\<exists>v. calculate_var (Some s) c pv = Inr (Some v) \<and> var_pct v = \<bar>r\<bar>"
proof -
  have "0 \<le> (1 - c) * 100" "(1 - c) * 100 \<le> 100" using assms by auto
  hence "percentile (replicate (length (rows s)) r) ((1 - c) * 100) = Inr r"
    using assms(1) by (intro percentile_const) auto
  hence "percentile (vals s) ((1 - c) * 100) = Inr r"
    using assms(2) by (simp only: vals_const)
  then show ?thesis using assms(1) unfolding calculate_var_def Let_def by simp
qed

theorem var_identical_returns_witness:
  "rows \<lparr>index_type = DatetimeIndex, rows = [(0, -0.02), (1, -0.02), (2, -0.02)]\<rparr> \<noteq> []
   \<and> vals \<lparr>index_type = DatetimeIndex, rows = [(0, -0.02), (1, -0.02), (2, -0.02)]\<rparr>
       = [-0.02, -0.02, -0.02]
   \<and> (0::real) < 0.95 \<and> (0.95::real) < 1
   \<and> (\<exists>v. calculate_var
              (Some \<lparr>index_type = DatetimeIndex, rows = [(0, -0.02), (1, -0.02), (2, -0.02)]\<rparr>)
              0.95 100000 = Inr (Some v) \<and> var_pct v = \<bar>-0.02\<bar>)"
  using var_identical_returns
    [of "\<lparr>index_type = DatetimeIndex, rows = [(0, -0.02), (1, -0.02), (2, -0.02)]\<rparr>" "-0.02" "0.95" 100000]
  by (simp add: vals_def)

subsection \<open>Absent and empty series\<close>

text \<open>
  Claim C4. Each of \<open>calculate_var\<close>, \<open>calculate_cvar\<close>, \<open>calculate_volatility\<close>,
  \<open>calculate_max_drawdown\<close>, \<open>calculate_sharpe_ratio\<close> and \<open>stress_test\<close> returns
  \<open>None\<close>, and raises nothing, when the series is \<open>None\<close> and when it has no rows,
  whatever the other arguments are.
\<close>

theorem estimators_absent_on_missing_series:
  "calculate_var None c pv = Inr None
   \<and> calculate_var (Some \<lparr>index_type = k, rows = []\<rparr>) c pv = Inr None
   \<and> calculate_cvar None c pv = Inr None
   \<and> calculate_cvar (Some \<lparr>index_type = k, rows = []\<rparr>) c pv = Inr None
   \<and> calculate_volatility lib None w = Inr None
   \<and> calculate_volatility lib (Some \<lparr>index_type = k, rows = []\<rparr>) w = Inr None
   \<and> calculate_max_drawdown None = Inr None
   \<and> calculate_max_drawdown (Some \<lparr>index_type = k, rows = []\<rparr>) = Inr None
   \<and> calculate_sharpe_ratio lib None rf = None
   \<and> calculate_sharpe_ratio lib (Some \<lparr>index_type = k, rows = []\<rparr>) rf = None
   \<and> stress_test lib None pv sc = None
   \<and> stress_test lib (Some \<lparr>index_type = k, rows = []\<rparr>) pv sc = None"
  by (simp add: calculate_var_def calculate_cvar_def calculate_volatility_def
      calculate_max_drawdown_def calculate_sharpe_ratio_def stress_test_def)

text \<open>
  Claim C5, as the code has it. \<open>assess_risk\<close> guards with \<^verbatim>\<open>returns is None\<close> only.
  An absent series gives the error result \<^verbatim>\<open>{'error': 'Could not fetch data'}\<close> and no
  metrics. A series that is present but empty is not a failure: every estimator
  returns \<open>None\<close> for it, no limit is checked against a missing metric, and the call
  returns an assessment with zero data points, no metric, no alert and status \<open>OK\<close>.
\<close>

theorem assess_risk_missing_series:
  "assess_risk lib limits symbol pv now None market = Inr (AssessError ''Could not fetch data'')
   \<and> assess_risk lib limits symbol pv now (Some \<lparr>index_type = k, rows = []\<rparr>) market =
       Inr (Assessment
         \<lparr>ra_symbol = symbol, ra_portfolio_value = pv, ra_assessment_date = now,
          ra_data_points = 0, ra_var_95 = None, ra_var_99 = None, ra_cvar_95 = None,
          ra_cvar_99 = None, ra_volatility = None, ra_max_drawdown = None,
          ra_sharpe_ratio = None, ra_beta = None, ra_stress_test = None,
          ra_alerts = [], ra_risk_status = OK\<rparr>)"
  by (simp add: assess_risk_def calculate_var_def calculate_cvar_def calculate_volatility_def
      calculate_max_drawdown_def calculate_sharpe_ratio_def stress_test_def calculate_beta_def
      full_period_def limit_alerts_def status_of_def)

text \<open>
  The claim as the specification words it (an empty series makes the orchestrator fail)
  does not hold: the empty series of an asset with a single price row is assessed as
  \<open>OK\<close>.
\<close>

theorem assess_risk_empty_series_not_failure:
  "assess_risk exact_lib default_risk_limits ''AAPL'' 100000 ''2024-01-02 09:30:00''
     (Some \<lparr>index_type = IntegerIndex, rows = []\<rparr>) None =
   Inr (Assessment
         \<lparr>ra_symbol = ''AAPL'', ra_portfolio_value = 100000,
          ra_assessment_date = ''2024-01-02 09:30:00'',
          ra_data_points = 0, ra_var_95 = None, ra_var_99 = None, ra_cvar_95 = None,
          ra_cvar_99 = None, ra_volatility = None, ra_max_drawdown = None,
          ra_sharpe_ratio = None, ra_beta = None, ra_stress_test = None,
          ra_alerts = [], ra_risk_status = OK\<rparr>)"
  by (simp add: assess_risk_def calculate_var_def calculate_cvar_def calculate_volatility_def
      calculate_max_drawdown_def calculate_sharpe_ratio_def stress_test_def calculate_beta_def
      full_period_def limit_alerts_def status_of_def)

subsection \<open>Beta on a short overlap\<close>

text \<open>
  Claim C7, as the code has it. When the asset series and the fetched benchmark series
  share fewer than 20 labels, \<open>calculate_beta\<close> returns the error dictionary
  \<^verbatim>\<open>'Insufficient overlapping data'\<close> if the asset series has a row, and \<open>None\<close> if
  the asset series is empty (the guard on the asset series comes first). In neither
  case is a beta computed.
\<close>

theorem beta_insufficient_overlap:
  assumes "length (combined a m) < 20"
  shows "calculate_beta (Some a) market_symbol (Some m) =
           (if rows a = [] then None else Some (BetaError ''Insufficient overlapping data''))"
  using assms by (simp add: calculate_beta_def)

theorem beta_insufficient_overlap_witness:
  "length (combined \<lparr>index_type = DatetimeIndex, rows = [(0, 0.01), (1, -0.02), (2, 0.005)]\<rparr>
                    \<lparr>index_type = DatetimeIndex, rows = [(1, 0.003), (2, 0.004), (3, 0.001)]\<rparr>) = 2
   \<and> calculate_beta (Some \<lparr>index_type = DatetimeIndex, rows = [(0, 0.01), (1, -0.02), (2, 0.005)]\<rparr>)
        ''SPY'' (Some \<lparr>index_type = DatetimeIndex, rows = [(1, 0.003), (2, 0.004), (3, 0.001)]\<rparr>)
       = Some (BetaError ''Insufficient overlapping data'')"
  using beta_insufficient_overlap
    [of "\<lparr>index_type = DatetimeIndex, rows = [(0, 0.01), (1, -0.02), (2, 0.005)]\<rparr>"
        "\<lparr>index_type = DatetimeIndex, rows = [(1, 0.003), (2, 0.004), (3, 0.001)]\<rparr>" "''SPY''"]
  by (simp add: combined_def)

text \<open>
  The claim as worded (every pair with a short overlap yields the insufficient-overlap
  failure) fails on an empty asset series: the overlap is empty and the result is
  \<open>None\<close>, not the error dictionary.
\<close>

theorem beta_empty_asset_absent:
  "length (combined \<lparr>index_type = DatetimeIndex, rows = []\<rparr>
                    \<lparr>index_type = DatetimeIndex, rows = [(1, 0.003), (2, 0.004)]\<rparr>) = 0
   \<and> calculate_beta (Some \<lparr>index_type = DatetimeIndex, rows = []\<rparr>) ''SPY''
        (Some \<lparr>index_type = DatetimeIndex, rows = [(1, 0.003), (2, 0.004)]\<rparr>) = None
   \<and> calculate_beta (Some \<lparr>index_type = DatetimeIndex, rows = []\<rparr>) ''SPY''
        (Some \<lparr>index_type = DatetimeIndex, rows = [(1, 0.003), (2, 0.004)]\<rparr>)
       \<noteq> Some (BetaError ''Insufficient overlapping data'')"
  by (simp add: calculate_beta_def combined_def)

subsection \<open>Stress scenarios\<close>

lemma default_bear: "default_scenarios ''Bear Market -20%'' = Some (-0.20)"
  by (simp add: default_scenarios_def)

text \<open>
  Claim C9, as the code has it. On a non-empty series, for every scenario \<open>name\<close> with
  shock \<open>shock\<close> in the mapping and every portfolio value, the entry of \<open>name\<close> in the
  result has \<open>shocked_value = portfolio_value * (1 + shock)\<close> and
  \<open>loss_amount = portfolio_value - shocked_value\<close>. Its \<open>days_to_recover\<close> is not the
  quotient \<open>\<bar>shock\<bar> / avg_daily_return\<close> but \<^verbatim>\<open>int(...)\<close> of it: the float64 quotient
  truncated towards zero when the float64 mean of the returns is positive and the
  quotient is finite, and \<open>None\<close> when the mean is not positive or the quotient
  overflows. With the default table and a portfolio of 100000, the bear-market scenario
  (shock -0.20) gives a shocked value of 80000 and a loss of 20000, whatever the returns
  are.
\<close>

theorem stress_test_scenario:
  assumes "rows s \<noteq> []" "scenarios name = Some shock"
  shows "(\<exists>f r. stress_test lib (Some s) pv (Some scenarios) = Some f \<and> f name = Some r
            \<and> shocked_value r = pv * (1 + shock)
            \<and> loss_amount r = pv - shocked_value r
            \<and> days_to_recover r =
                (if 0 < lib_mean lib (vals s)
                 then map_option py_int (lib_div lib \<bar>shock\<bar> (lib_mean lib (vals s)))
                 else None))
         \<and> (\<exists>f r. stress_test lib (Some s) 100000 None = Some f
            \<and> f ''Bear Market -20%'' = Some r
            \<and> shock_pct r = -0.20 \<and> shocked_value r = 80000 \<and> loss_amount r = 20000)"
  using assms
  by (simp add: stress_test_def scenario_result_def default_bear Let_def)

theorem stress_test_scenario_witness:
  "rows \<lparr>index_type = DatetimeIndex, rows = [(0, 0.25), (1, 0.25)]\<rparr> \<noteq> []
   \<and> default_scenarios ''2008 Crisis -50%'' = Some (-0.50)
   \<and> lib_mean exact_lib (vals \<lparr>index_type = DatetimeIndex, rows = [(0, 0.25), (1, 0.25)]\<rparr>)
       = 0.25
   \<and> lib_div exact_lib \<bar>-0.50\<bar> 0.25 = Some 2
   \<and> (\<exists>f r. stress_test exact_lib
               (Some \<lparr>index_type = DatetimeIndex, rows = [(0, 0.25), (1, 0.25)]\<rparr>)
               50000 (Some default_scenarios) = Some f
            \<and> f ''2008 Crisis -50%'' = Some r
            \<and> shocked_value r = 25000 \<and> loss_amount r = 25000
            \<and> days_to_recover r = Some 2)"
  using stress_test_scenario
    [of "\<lparr>index_type = DatetimeIndex, rows = [(0, 0.25), (1, 0.25)]\<rparr>" default_scenarios
        "''2008 Crisis -50%''" "-0.50" exact_lib 50000]
  by (auto simp: exact_lib_def avg_def vals_def default_scenarios_def py_int_def)

text \<open>
  The claim as worded gives \<open>recovery_days = \<bar>shock\<bar> / avg_daily_return\<close>. With one
  return of 0.03 and the bear-market shock the quotient is 20/3; the result holds 6.
\<close>

theorem stress_days_truncated:
  "map_option (\<lambda>f. map_option days_to_recover (f ''Bear Market -20%''))
     (stress_test exact_lib (Some \<lparr>index_type = DatetimeIndex, rows = [(0, 0.03)]\<rparr>)
        100000 None)
     = Some (Some (Some 6))
   \<and> lib_div exact_lib \<bar>-0.20\<bar>
        (lib_mean exact_lib (vals \<lparr>index_type = DatetimeIndex, rows = [(0, 0.03)]\<rparr>))
       = Some (20 / 3)
   \<and> real_of_int 6 \<noteq> (20 / 3 :: real)"
  by (simp add: stress_test_def scenario_result_def default_bear py_int_def exact_lib_def
      avg_def vals_def Let_def)

subsection \<open>Conditional VaR against VaR\<close>

lemma sum_list_le_const:
  "\<forall>x\<in>set xs. x \<le> c \<Longrightarrow> sum_list xs \<le> c * real (length xs)"
  by (induction xs) (auto simp: algebra_simps)

text \<open>
  Where at least one return lies at or below the tail threshold, the tail average is
  at least as large in magnitude as the threshold.
\<close>

lemma cvar_ge_var_on_tail:
  assumes v: "calculate_var (Some s) c pv = Inr (Some v)"
    and tail: "filter (\<lambda>r. r \<le> - var_pct v) (vals s) \<noteq> []"
  shows "\<exists>cv x. calculate_cvar (Some s) c pv = Inr (Some cv) \<and> cvar_pct cv = Fin x
           \<and> var_pct v \<le> x"
proof -
  let ?T = "filter (\<lambda>r. r \<le> - var_pct v) (vals s)"
  have ne: "rows s \<noteq> []" using v by (auto simp: calculate_var_def split: if_splits)
  have n: "0 < real (length ?T)" using tail by simp
  have "sum_list ?T \<le> (- var_pct v) * real (length ?T)"
    by (rule sum_list_le_const) simp
  hence "sum_list ?T / real (length ?T) \<le> - var_pct v"
    using n by (simp add: pos_divide_le_eq)
  hence "var_pct v \<le> \<bar>sum_list ?T / real (length ?T)\<bar>" by linarith
  thus ?thesis
    using ne v tail by (simp add: calculate_cvar_def mean_def Let_def)
qed

text \<open>
  Claim C1. The code departs from the claim where no return lies at or below the
  threshold. On the one-return series \<open>[0.01]\<close> at confidence 0.95 the VaR is 0.01, the
  threshold is -0.01, the tail is empty, and \<open>calculate_cvar\<close> reports the mean of the
  empty selection: NaN, which neither equals the VaR nor compares as greater or equal.
\<close>

theorem cvar_empty_tail:
  "calculate_var (Some \<lparr>index_type = DatetimeIndex, rows = [(0, 0.01)]\<rparr>) 0.95 100000
     = Inr (Some \<lparr>var_confidence = 0.95, var_pct = 0.01, var_dollar = 1000\<rparr>)
   \<and> calculate_cvar (Some \<lparr>index_type = DatetimeIndex, rows = [(0, 0.01)]\<rparr>) 0.95 100000
     = Inr (Some \<lparr>cvar_confidence = 0.95, cvar_pct = NaN, cvar_dollar = NaN,
                  num_tail_events = 0\<rparr>)
   \<and> \<not> np_ge NaN 0.01"
  by (simp add: calculate_var_def calculate_cvar_def percentile_def vals_def mean_def Let_def)

subsection \<open>Sharpe ratio at zero volatility\<close>






subsection \<open>Maximum drawdown never returns\<close>





lemma first_max_mem: "first_max best xs \<in> set (best # xs)"
  by (induction xs arbitrary: best) auto





lemma max_drawdown_never_returns:
  assumes "rows s \<noteq> []"
  shows "\<exists>e. calculate_max_drawdown (Some s) = Inl e"
  using assms by (cases "drawdown_entries s") (auto simp: calculate_max_drawdown_def)




text \<open>
  An integer label 0 does not by itself prevent the NameError: with labels 0, 1, 2 and
  the trough at label 1 the slice \<^verbatim>\<open>running_max[:1]\<close> has one row.
\<close>

lemma max_drawdown_trough_after_label_zero:
  "calculate_max_drawdown
     (Some \<lparr>index_type = IntegerIndex, rows = [(0, 0.02), (1, -0.05), (2, 0.01)]\<rparr>)
     = Inl NameError"
  by (simp add: calculate_max_drawdown_def drawdown_entries_def Let_def vals_def cumprod_def
      idxmin_def idxmax_def slice_to_def)

text \<open>
  An earlier line also raises on a date-indexed series that opens with a return of
  \<open>-1\<close>: the cumulative
  path and its running maximum are 0 throughout, every drawdown is 0/0, and
  \<^verbatim>\<open>idxmin()\<close> finds no label.
\<close>

lemma max_drawdown_all_nan:
  "calculate_max_drawdown (Some \<lparr>index_type = DatetimeIndex, rows = [(0, -1), (1, 0.5)]\<rparr>)
     = Inl ValueError"
  by (simp add: calculate_max_drawdown_def drawdown_entries_def Let_def vals_def cumprod_def
      idxmin_def)

text \<open>
  Claim C3. The code does not return the result the claim describes: on the series of
  three returns of +0.01 it raises NameError. What it had computed before the failing
  entry is the drawdown 0 with peak, trough and recovery at the first label.
\<close>

theorem max_drawdown_increasing_path:
  "calculate_max_drawdown
     (Some \<lparr>index_type = DatetimeIndex, rows = [(0, 0.01), (1, 0.01), (2, 0.01)]\<rparr>)
     = Inl NameError
   \<and> drawdown_entries \<lparr>index_type = DatetimeIndex, rows = [(0, 0.01), (1, 0.01), (2, 0.01)]\<rparr>
     = Inr \<lparr>max_drawdown = Fin 0, max_drawdown_pct = Fin 0, dd_peak_date = 0,
            dd_trough_date = 0, dd_recovery_date = Some 0, dd_drawdown_days = 0,
            dd_recovery_days = None\<rparr>"
  by (simp add: calculate_max_drawdown_def drawdown_entries_def Let_def vals_def cumprod_def
      idxmin_def idxmax_def slice_to_def slice_from_def series_min_def truthy_label_def
      label_distance_def)

subsection \<open>Alerts and status\<close>

text \<open>
  The five checks of lines 511-527 and the status of line 545, on metrics of any
  value: the list holds the alert of a metric exactly when that metric is present and
  breaches its limit, each alert at most once, and the status is \<open>ALERT\<close> exactly when
  the list is not empty.
\<close>

lemma limit_alerts_breaches:
  "(Alert VaR95 x l \<in> set (limit_alerts limits v95 v99 vol dd sh) \<longleftrightarrow>
      (\<exists>v. v95 = Some v \<and> limit_var_95 limits < var_pct v
           \<and> x = Fin (var_pct v) \<and> l = limit_var_95 limits))
   \<and> (Alert VaR99 x l \<in> set (limit_alerts limits v95 v99 vol dd sh) \<longleftrightarrow>
      (\<exists>v. v99 = Some v \<and> limit_var_99 limits < var_pct v
           \<and> x = Fin (var_pct v) \<and> l = limit_var_99 limits))
   \<and> (Alert Volatility x l \<in> set (limit_alerts limits v95 v99 vol dd sh) \<longleftrightarrow>
      (\<exists>v. vol = Some v \<and> np_greater (annual_volatility v) (limit_volatility limits)
           \<and> x = annual_volatility v \<and> l = limit_volatility limits))
   \<and> (Alert MaxDrawdown x l \<in> set (limit_alerts limits v95 v99 vol dd sh) \<longleftrightarrow>
      (\<exists>d. dd = Some d \<and> np_greater (max_drawdown d) (limit_max_drawdown limits)
           \<and> x = max_drawdown d \<and> l = limit_max_drawdown limits))
   \<and> (Alert SharpeRatio x l \<in> set (limit_alerts limits v95 v99 vol dd sh) \<longleftrightarrow>
      (\<exists>r. sh = Some r \<and> np_less (sharpe_ratio r) (limit_min_sharpe limits)
           \<and> x = sharpe_ratio r \<and> l = limit_min_sharpe limits))
   \<and> distinct (limit_alerts limits v95 v99 vol dd sh)
   \<and> status_of (limit_alerts limits v95 v99 vol dd sh) =
        (if limit_alerts limits v95 v99 vol dd sh = [] then OK else ALERT)"
proof -
  have st: "status_of xs = (if xs = [] then OK else ALERT)" for xs
    by (simp add: status_of_def)
  show ?thesis
    by (intro conjI st) (auto simp: limit_alerts_def split: option.splits)
qed



lemma assess_risk_raises_on_data:
  assumes "rows s \<noteq> []"
  shows "\<exists>e. assess_risk lib limits symbol pv now (Some s) market = Inl e"
proof -
  obtain e where e: "calculate_max_drawdown (Some s) = Inl e"
    using max_drawdown_never_returns [OF assms] by blast
  show ?thesis
    unfolding assess_risk_def by (auto simp: e split: sum.splits)
qed


end
